theory Spec2Isabelle
  imports Complex_Main
begin

section \<open>Label inference of The Cannon (\<open>TheCannon/infer_labels.py\<close>)\<close>

text \<open>
  The module infers the labels of every star of a test set: for each star it fits, by
  weighted nonlinear least squares, the labels whose quadratic label vector best
  reproduces the observed flux, and it writes the fitted labels onto the dataset.

  Conventions of the embedding.
  \<^item> A float is a \<open>real\<close>: rounding, infinities and NaN are outside the model.
  \<^item> A one-dimensional array is a \<open>real list\<close>; a two-dimensional array is a record of
    its column count and its rows, so that an array of shape \<open>(0, k)\<close> has a shape.
  \<^item> Every exception numpy or the optimizer can raise is a value \<open>Inl e\<close> of a sum type.
  \<^item> \<open>scipy.optimize.curve_fit\<close> is a library routine: it is a parameter of the model.
  \<^item> The console output of \<open>print\<close> is not modelled.
\<close>

subsection \<open>Exceptions and arrays\<close>

text \<open>
  The exception classes that occur. \<open>RuntimeError\<close> stands for the class and its
  subclasses, which is what \<open>except RuntimeError\<close> catches.
\<close>

datatype exn = RuntimeError | ValueError | IndexError | TypeError | AttributeError

definition bind_exn :: "exn + 'a \<Rightarrow> ('a \<Rightarrow> exn + 'b) \<Rightarrow> exn + 'b" where
  "bind_exn m f = (case m of Inl e \<Rightarrow> Inl e | Inr x \<Rightarrow> f x)"

record array2d =
  ncols :: nat
  rows :: "real list list"

text \<open>A numpy array is rectangular: every row has \<open>ncols\<close> entries.\<close>

definition valid2d :: "array2d \<Rightarrow> bool" where
  "valid2d a = list_all (\<lambda>r. length r = ncols a) (rows a)"

definition nrows :: "array2d \<Rightarrow> nat" where
  "nrows a = length (rows a)"

text \<open>\<open>np.zeros((n, m))\<close> and \<open>np.zeros(n)\<close>.\<close>

definition zeros2 :: "nat \<Rightarrow> nat \<Rightarrow> array2d" where
  "zeros2 n m = \<lparr>ncols = m, rows = replicate n (replicate m 0)\<rparr>"

definition zeros1 :: "nat \<Rightarrow> real list" where
  "zeros1 n = replicate n 0"

text \<open>
  An elementwise binary operation on two one-dimensional arrays, with numpy's
  broadcasting: equal lengths, or one operand of length one; anything else raises
  \<open>ValueError\<close>.
\<close>

definition broadcast :: "(real \<Rightarrow> real \<Rightarrow> real) \<Rightarrow> real list \<Rightarrow> real list \<Rightarrow> exn + real list" where
  "broadcast f xs ys =
     (if length xs = length ys then Inr (map2 f xs ys)
      else if length xs = 1 then Inr (map (f (xs ! 0)) ys)
      else if length ys = 1 then Inr (map (\<lambda>x. f x (ys ! 0)) xs)
      else Inl ValueError)"

text \<open>\<open>a[jj, :]\<close>: row \<open>jj\<close> of a two-dimensional array.\<close>

definition get_row :: "array2d \<Rightarrow> nat \<Rightarrow> exn + real list" where
  "get_row a jj = (if jj < nrows a then Inr (rows a ! jj) else Inl IndexError)"

text \<open>
  \<open>a[jj, :] = v\<close>: the value is broadcast to the row, so it has the row's length or
  length one.
\<close>

definition set_row :: "array2d \<Rightarrow> nat \<Rightarrow> real list \<Rightarrow> exn + array2d" where
  "set_row a jj v =
     (if \<not> jj < nrows a then Inl IndexError
      else if length v = ncols a then Inr (a\<lparr>rows := (rows a)[jj := v]\<rparr>)
      else if length v = 1 then Inr (a\<lparr>rows := (rows a)[jj := replicate (ncols a) (v ! 0)]\<rparr>)
      else Inl ValueError)"

text \<open>\<open>a[:, 0]\<close>: column 0.\<close>

definition column0 :: "array2d \<Rightarrow> exn + real list" where
  "column0 a = (if ncols a = 0 then Inl IndexError else Inr (map (\<lambda>r. r ! 0) (rows a)))"

text \<open>\<open>np.delete(a, 0, axis=1)\<close>: a copy of the array without column 0.\<close>

definition delete_column0 :: "array2d \<Rightarrow> exn + array2d" where
  "delete_column0 a =
     (if ncols a = 0 then Inl IndexError
      else Inr \<lparr>ncols = ncols a - 1, rows = map tl (rows a)\<rparr>)"

text \<open>\<open>a.diagonal()\<close>.\<close>

definition diagonal :: "array2d \<Rightarrow> real list" where
  "diagonal a = map (\<lambda>i. rows a ! i ! i) [0..<min (nrows a) (ncols a)]"

text \<open>
  \<open>np.dot(a, v)\<close> of a two-dimensional array and a vector: the columns of \<open>a\<close> must be
  as many as the entries of \<open>v\<close>.
\<close>

definition dot :: "array2d \<Rightarrow> real list \<Rightarrow> exn + real list" where
  "dot a v =
     (if ncols a = length v then Inr (map (\<lambda>r. sum_list (map2 (*) r v)) (rows a))
      else Inl ValueError)"

text \<open>
  Boolean-mask indexing. \<open>a[mask]\<close> selects the entries where the mask is true; a mask
  of another length than the array raises \<open>IndexError\<close> (early numpy releases only
  warned; no theorem below rests on that case). \<open>a[mask] = v\<close> stores the entries of
  \<open>v\<close>, in order, where the mask is true; \<open>v\<close> has as many entries as the mask has
  true ones, or one entry.
\<close>

definition mask_select :: "real list \<Rightarrow> bool list \<Rightarrow> exn + real list" where
  "mask_select a msk =
     (if length msk = length a then Inr (map fst (filter snd (zip a msk)))
      else Inl IndexError)"

fun mask_store :: "real list \<Rightarrow> bool list \<Rightarrow> real list \<Rightarrow> real list" where
  "mask_store (x # xs) (b # bs) vs =
     (if b then (case vs of [] \<Rightarrow> x # mask_store xs bs [] | v # vs' \<Rightarrow> v # mask_store xs bs vs')
      else x # mask_store xs bs vs)"
| "mask_store xs bs vs = xs"

definition mask_assign :: "real list \<Rightarrow> bool list \<Rightarrow> real list \<Rightarrow> exn + real list" where
  "mask_assign a msk v =
     (let k = length (filter id msk) in
      if length msk \<noteq> length a then Inl IndexError
      else if length v = k then Inr (mask_store a msk v)
      else if length v = 1 then Inr (mask_store a msk (replicate k (v ! 0)))
      else Inl ValueError)"

subsection \<open>The label vector\<close>

definition LARGE :: real where
  "LARGE = 200"

definition SMALL :: real where
  "SMALL = 1 / LARGE"

text \<open>\<open>np.outer\<close>, and \<open>np.triu_indices(n)\<close> as the list of its index pairs.\<close>

definition outer :: "real list \<Rightarrow> real list \<Rightarrow> real list list" where
  "outer xs ys = map (\<lambda>x. map (\<lambda>y. x * y) ys) xs"

definition triu_indices :: "nat \<Rightarrow> (nat \<times> nat) list" where
  "triu_indices n = concat (map (\<lambda>i. map (\<lambda>j. (i, j)) [i..<n]) [0..<n])"

definition get_lvec :: "real list \<Rightarrow> real list" where
  "get_lvec labels =
     (let nlabels = length labels;
          linear_terms = labels;
          quadratic_terms =
            map (\<lambda>(i, j). outer linear_terms linear_terms ! i ! j) (triu_indices nlabels)
      in linear_terms @ quadratic_terms)"

text \<open>\<open>_func(coeffs, *labels)\<close>: the model's prediction of every pixel at the labels.\<close>

definition func :: "array2d \<Rightarrow> real list \<Rightarrow> exn + real list" where
  "func cs labels = (let lvec = get_lvec labels in dot cs lvec)"

subsection \<open>The model, the dataset and the optimizer\<close>

text \<open>
  The attributes of the model and of the dataset that \<open>_infer_labels\<close> reads, and the
  label table it writes.
\<close>

record cannon_model =
  coeffs :: array2d
  scatters :: "real list"
  chisqs :: "real list"
  pivots :: "real list"

record dataset =
  tr_label :: array2d
  test_flux :: array2d
  test_ivar :: array2d
  test_label_vals :: array2d

text \<open>
  Modelled from the spec: the class of the dataset that \<open>_infer_labels\<close> receives, with
  its method \<open>set_test_label_vals\<close>, is not among the sources. By the spec the setter
  overwrites the dataset's label-value table with the matrix it is given (as every setter
  of the earlier class in \<open>Code/Version1.2/dataset.py\<close> assigns one attribute).
\<close>

definition set_test_label_vals :: "array2d \<Rightarrow> dataset \<Rightarrow> dataset" where
  "set_test_label_vals label_vals ds = ds\<lparr>test_label_vals := label_vals\<rparr>"

text \<open>
  \<open>opt.curve_fit(f, xdata, ydata, p0=, sigma=, absolute_sigma=True)\<close>: it returns the
  fitted parameters and their covariance matrix, or raises.
\<close>

type_synonym curve_fit =
  "(array2d \<Rightarrow> real list \<Rightarrow> exn + real list) \<Rightarrow> array2d \<Rightarrow> real list \<Rightarrow> real list \<Rightarrow> real list
   \<Rightarrow> exn + (real list \<times> array2d)"

subsection \<open>One star\<close>

text \<open>Line 89: the flux relative to the leading coefficient of every pixel.\<close>

definition pivot_flux :: "array2d \<Rightarrow> real list \<Rightarrow> exn + real list" where
  "pivot_flux coeffs_all flux =
     bind_exn (column0 coeffs_all) (\<lambda>c0. broadcast (-) flux (map (\<lambda>c. c * 1) c0))"

text \<open>Lines 90 to 92: the standard deviation of every pixel.\<close>

definition pixel_sigma :: "real list \<Rightarrow> real list \<Rightarrow> real list \<Rightarrow> exn + real list" where
  "pixel_sigma flux ivar scat =
     (let sig = map (\<lambda>one. one * LARGE) (replicate (length flux) 1);
          bad = map (\<lambda>v. v = 0) ivar;
          good = map Not bad
      in bind_exn (mask_select ivar good) (\<lambda>ivar_good.
         bind_exn (mask_select scat good) (\<lambda>scat_good.
         bind_exn (broadcast (+) (map (\<lambda>v. 1 / v) ivar_good) (map (\<lambda>s. s ^ 2) scat_good)) (\<lambda>var.
         mask_assign sig good (map sqrt var)))))"

text \<open>
  Lines 94 to 102: the fit, and the labels and covariance that stand for a fit that did
  not converge. Only \<open>RuntimeError\<close> is caught.
\<close>

definition minus_scalar :: "real \<Rightarrow> real list \<Rightarrow> real list" where
  "minus_scalar c xs = map (\<lambda>x. x - c) xs"

definition minus_scalar2 :: "real \<Rightarrow> array2d \<Rightarrow> array2d" where
  "minus_scalar2 c a = a\<lparr>rows := map (minus_scalar c) (rows a)\<rparr>"

definition fit_labels ::
  "curve_fit \<Rightarrow> array2d \<Rightarrow> real list \<Rightarrow> real list \<Rightarrow> real list \<Rightarrow> exn + (real list \<times> array2d)" where
  "fit_labels cf cs flux_piv starting_guess sig =
     (case cf func cs flux_piv starting_guess sig of
        Inr (labels, covs) \<Rightarrow> Inr (labels, covs)
      | Inl e \<Rightarrow>
          if e = RuntimeError then
            Inr (minus_scalar 9999 (zeros1 (length starting_guess)),
                 minus_scalar2 9999 (zeros2 (length starting_guess) (length starting_guess)))
          else Inl e)"

text \<open>Line 103: the chi-square term of every pixel.\<close>

definition chi2_terms ::
  "array2d \<Rightarrow> real list \<Rightarrow> real list \<Rightarrow> real list \<Rightarrow> real list \<Rightarrow> exn + real list" where
  "chi2_terms cs flux_piv labels ivar scat =
     bind_exn (func cs labels) (\<lambda>prediction.
     bind_exn (broadcast (-) flux_piv prediction) (\<lambda>resid.
     bind_exn (broadcast (*) (map (\<lambda>r. r ^ 2) resid) ivar) (\<lambda>num.
     bind_exn (broadcast (*) ivar (map (\<lambda>s. s ^ 2) scat)) (\<lambda>iv_s2.
     broadcast (/) num (map (\<lambda>x. 1 + x) iv_s2)))))"

text \<open>\<open>a[jj] = x\<close> on a one-dimensional array.\<close>

definition set_item :: "real list \<Rightarrow> nat \<Rightarrow> real \<Rightarrow> exn + real list" where
  "set_item a jj x = (if jj < length a then Inr (a[jj := x]) else Inl IndexError)"

text \<open>The arrays the loop fills, and its body (lines 87 to 106) for star \<open>jj\<close>.\<close>

record loop_state =
  labels_all :: array2d
  errs_all :: array2d
  chisq_all :: "real list"

definition star_body ::
  "curve_fit \<Rightarrow> cannon_model \<Rightarrow> dataset \<Rightarrow> real list \<Rightarrow> nat \<Rightarrow> loop_state \<Rightarrow> exn + loop_state" where
  "star_body cf mdl ds starting_guess jj st =
     bind_exn (get_row (test_flux ds) jj) (\<lambda>flux.
     bind_exn (get_row (test_ivar ds) jj) (\<lambda>ivar.
     bind_exn (pivot_flux (coeffs mdl) flux) (\<lambda>flux_piv.
     bind_exn (pixel_sigma flux ivar (scatters mdl)) (\<lambda>sig.
     bind_exn (delete_column0 (coeffs mdl)) (\<lambda>cs.
     bind_exn (fit_labels cf cs flux_piv starting_guess sig) (\<lambda>(labels, covs).
     bind_exn (chi2_terms cs flux_piv labels ivar (scatters mdl)) (\<lambda>chi2.
     bind_exn (set_item (chisq_all st) jj (foldl (+) 0 chi2)) (\<lambda>chisq_all'.
     bind_exn (broadcast (+) labels (pivots mdl)) (\<lambda>labels_piv.
     bind_exn (set_row (labels_all st) jj labels_piv) (\<lambda>labels_all'.
     bind_exn (set_row (errs_all st) jj (diagonal covs)) (\<lambda>errs_all'.
     Inr \<lparr>labels_all = labels_all', errs_all = errs_all', chisq_all = chisq_all'\<rparr>)))))))))))"

subsection \<open>All stars\<close>

text \<open>The loop over \<open>range(nstars)\<close>: the first exception ends it.\<close>

fun stars_loop ::
  "curve_fit \<Rightarrow> cannon_model \<Rightarrow> dataset \<Rightarrow> real list \<Rightarrow> nat list \<Rightarrow> loop_state \<Rightarrow> exn + loop_state" where
  "stars_loop cf mdl ds starting_guess [] st = Inr st"
| "stars_loop cf mdl ds starting_guess (jj # jjs) st =
     bind_exn (star_body cf mdl ds starting_guess jj st) (stars_loop cf mdl ds starting_guess jjs)"

text \<open>
  \<open>_infer_labels\<close>. The result pairs what the call returns or raises with the dataset
  as the call leaves it. Before the loop, line 80 allocates an array (never used) with
  \<open>coeffs_all.shape[1] - 1\<close> as a dimension, which raises \<open>ValueError\<close> when the
  coefficient matrix has no column; its other dimension is the float
  \<open>coeffs_all.shape[1] - 1.\<close>, which the numpy releases of the code's time accept with a
  warning, and the model follows them.
\<close>

definition infer_labels ::
  "curve_fit \<Rightarrow> cannon_model \<Rightarrow> dataset \<Rightarrow> real list
   \<Rightarrow> (exn + (array2d \<times> real list)) \<times> dataset" where
  "infer_labels cf mdl ds starting_guess =
     (let coeffs_all = coeffs mdl;
          nlabels = ncols (tr_label ds);
          fluxes = test_flux ds;
          nstars = nrows fluxes;
          st0 = \<lparr>labels_all = zeros2 nstars nlabels,
                 errs_all = zeros2 nstars nlabels,
                 chisq_all = zeros1 nstars\<rparr>
      in if ncols coeffs_all = 0 then (Inl ValueError, ds)
         else
           (case stars_loop cf mdl ds starting_guess [0..<nstars] st0 of
              Inl e \<Rightarrow> (Inl e, ds)
            | Inr st \<Rightarrow>
                (Inr (errs_all st, chisq_all st), set_test_label_vals (labels_all st) ds)))"

text \<open>
  The calls a run of \<open>_infer_labels\<close> makes on the dataset object, in order. The only
  method it calls is the setter of the label table, on line 108.
\<close>

datatype dataset_call = Set_test_label_vals array2d

fun apply_call :: "dataset_call \<Rightarrow> dataset \<Rightarrow> dataset" where
  "apply_call (Set_test_label_vals label_vals) ds = set_test_label_vals label_vals ds"

text \<open>
  \<open>_infer_labels\<close> again, with the calls it makes on the dataset recorded in order
  instead of applied: no call when it raises, before or inside the loop; the one call of
  line 108 when the loop has ended.
\<close>

definition infer_labels_trace ::
  "curve_fit \<Rightarrow> cannon_model \<Rightarrow> dataset \<Rightarrow> real list
   \<Rightarrow> (exn + (array2d \<times> real list)) \<times> dataset_call list" where
  "infer_labels_trace cf mdl ds starting_guess =
     (let coeffs_all = coeffs mdl;
          nlabels = ncols (tr_label ds);
          fluxes = test_flux ds;
          nstars = nrows fluxes;
          st0 = \<lparr>labels_all = zeros2 nstars nlabels,
                 errs_all = zeros2 nstars nlabels,
                 chisq_all = zeros1 nstars\<rparr>
      in if ncols coeffs_all = 0 then (Inl ValueError, [])
         else
           (case stars_loop cf mdl ds starting_guess [0..<nstars] st0 of
              Inl e \<Rightarrow> (Inl e, [])
            | Inr st \<Rightarrow>
                (Inr (errs_all st, chisq_all st), [Set_test_label_vals (labels_all st)])))"

section \<open>The data model of the specification\<close>

text \<open>
  The shape invariants the specification states for the model, the dataset and the
  starting guess: the coefficient matrix has one row per pixel and \<open>1 + F nlabels\<close>
  columns, where \<open>F n = n + n (n + 1) / 2\<close> is the length of the label vector; scatter
  has one entry per pixel and the pivot one per label; flux and inverse variance have one
  row per star and one column per pixel.
\<close>

definition feature_length :: "nat \<Rightarrow> nat" where
  "feature_length n = n + n * (n + 1) div 2"

definition well_shaped :: "cannon_model \<Rightarrow> dataset \<Rightarrow> real list \<Rightarrow> bool" where
  "well_shaped mdl ds starting_guess =
     (valid2d (coeffs mdl) \<and> valid2d (test_flux ds) \<and> valid2d (test_ivar ds)
      \<and> ncols (coeffs mdl) = 1 + feature_length (ncols (tr_label ds))
      \<and> length (scatters mdl) = nrows (coeffs mdl)
      \<and> length (pivots mdl) = ncols (tr_label ds)
      \<and> ncols (test_flux ds) = nrows (coeffs mdl)
      \<and> ncols (test_ivar ds) = nrows (coeffs mdl)
      \<and> nrows (test_ivar ds) = nrows (test_flux ds)
      \<and> length starting_guess = ncols (tr_label ds))"

text \<open>
  What the specification says of one star, in its words: the coefficient matrix without
  its offset column, the flux minus the offset column, the effective standard deviation
  of a pixel, and the outcome of the optimizer on them.
\<close>

definition offset_removed :: "array2d \<Rightarrow> array2d" where
  "offset_removed a = \<lparr>ncols = ncols a - 1, rows = map tl (rows a)\<rparr>"

definition star_flux_piv :: "cannon_model \<Rightarrow> dataset \<Rightarrow> nat \<Rightarrow> real list" where
  "star_flux_piv mdl ds jj = map2 (-) (rows (test_flux ds) ! jj) (map (\<lambda>r. r ! 0) (rows (coeffs mdl)))"

definition effective_sigma :: "real \<Rightarrow> real \<Rightarrow> real" where
  "effective_sigma iv s = (if iv = 0 then 200 else sqrt (1 / iv + s ^ 2))"

definition star_sigma :: "cannon_model \<Rightarrow> dataset \<Rightarrow> nat \<Rightarrow> real list" where
  "star_sigma mdl ds jj = map2 effective_sigma (rows (test_ivar ds) ! jj) (scatters mdl)"

definition star_fit :: "curve_fit \<Rightarrow> cannon_model \<Rightarrow> dataset \<Rightarrow> real list \<Rightarrow> nat \<Rightarrow> exn + (real list \<times> array2d)" where
  "star_fit cf mdl ds starting_guess jj =
     cf func (offset_removed (coeffs mdl)) (star_flux_piv mdl ds jj) starting_guess (star_sigma mdl ds jj)"

text \<open>
  What is assumed of the optimizer for star \<open>jj\<close>: it raises \<open>RuntimeError\<close>, or it
  returns as many labels as the starting guess has, with a square covariance matrix of
  that size.
\<close>

definition fit_ok :: "curve_fit \<Rightarrow> cannon_model \<Rightarrow> dataset \<Rightarrow> real list \<Rightarrow> nat \<Rightarrow> bool" where
  "fit_ok cf mdl ds starting_guess jj =
     (case star_fit cf mdl ds starting_guess jj of
        Inl e \<Rightarrow> e = RuntimeError
      | Inr (labels, covs) \<Rightarrow>
          length labels = length starting_guess \<and> valid2d covs
          \<and> ncols covs = length starting_guess \<and> nrows covs = length starting_guess)"

text \<open>
  The labels and the covariance of star \<open>jj\<close> after the \<open>try\<close> block, the model's
  prediction of pixel \<open>i\<close>, the chi-square term of a pixel, and the chi-square of a
  star.
\<close>

definition star_labels :: "curve_fit \<Rightarrow> cannon_model \<Rightarrow> dataset \<Rightarrow> real list \<Rightarrow> nat \<Rightarrow> real list" where
  "star_labels cf mdl ds starting_guess jj =
     (case star_fit cf mdl ds starting_guess jj of
        Inr (labels, covs) \<Rightarrow> labels
      | Inl e \<Rightarrow> replicate (length starting_guess) (- 9999))"

definition star_covs :: "curve_fit \<Rightarrow> cannon_model \<Rightarrow> dataset \<Rightarrow> real list \<Rightarrow> nat \<Rightarrow> array2d" where
  "star_covs cf mdl ds starting_guess jj =
     (case star_fit cf mdl ds starting_guess jj of
        Inr (labels, covs) \<Rightarrow> covs
      | Inl e \<Rightarrow> \<lparr>ncols = length starting_guess,
                  rows = replicate (length starting_guess) (replicate (length starting_guess) (- 9999))\<rparr>)"

definition prediction :: "array2d \<Rightarrow> real list \<Rightarrow> nat \<Rightarrow> real" where
  "prediction cs labels i = sum_list (map2 (*) (rows cs ! i) (get_lvec labels))"

definition chi2_pixel :: "real \<Rightarrow> real \<Rightarrow> real \<Rightarrow> real" where
  "chi2_pixel resid iv s = resid ^ 2 * iv / (1 + iv * s ^ 2)"

definition star_chisq :: "curve_fit \<Rightarrow> cannon_model \<Rightarrow> dataset \<Rightarrow> real list \<Rightarrow> nat \<Rightarrow> real" where
  "star_chisq cf mdl ds starting_guess jj =
     (\<Sum>i<nrows (coeffs mdl).
        chi2_pixel (star_flux_piv mdl ds jj ! i
                    - prediction (offset_removed (coeffs mdl)) (star_labels cf mdl ds starting_guess jj) i)
                   (rows (test_ivar ds) ! jj ! i) (scatters mdl ! i))"

text \<open>
  The shapes of the arrays the loop fills, the arrays after star \<open>jj\<close> is stored, and
  the arrays after the first \<open>k\<close> stars.
\<close>

definition state_shape :: "nat \<Rightarrow> nat \<Rightarrow> loop_state \<Rightarrow> bool" where
  "state_shape nstars nlabels st =
     (nrows (labels_all st) = nstars \<and> ncols (labels_all st) = nlabels
      \<and> nrows (errs_all st) = nstars \<and> ncols (errs_all st) = nlabels
      \<and> length (chisq_all st) = nstars)"

definition state_valid :: "nat \<Rightarrow> nat \<Rightarrow> loop_state \<Rightarrow> bool" where
  "state_valid nstars nlabels st = (state_shape nstars nlabels st \<and> valid2d (labels_all st))"

definition store_star ::
  "curve_fit \<Rightarrow> cannon_model \<Rightarrow> dataset \<Rightarrow> real list \<Rightarrow> nat \<Rightarrow> loop_state \<Rightarrow> loop_state" where
  "store_star cf mdl ds starting_guess jj st =
     \<lparr>labels_all = (labels_all st)
        \<lparr>rows := (rows (labels_all st))[jj := map2 (+) (star_labels cf mdl ds starting_guess jj) (pivots mdl)]\<rparr>,
      errs_all = (errs_all st)
        \<lparr>rows := (rows (errs_all st))[jj := diagonal (star_covs cf mdl ds starting_guess jj)]\<rparr>,
      chisq_all = (chisq_all st)[jj := star_chisq cf mdl ds starting_guess jj]\<rparr>"

definition partial_state ::
  "curve_fit \<Rightarrow> cannon_model \<Rightarrow> dataset \<Rightarrow> real list \<Rightarrow> nat \<Rightarrow> loop_state" where
  "partial_state cf mdl ds starting_guess k =
     (let nstars = nrows (test_flux ds); nlabels = ncols (tr_label ds) in
      \<lparr>labels_all = \<lparr>ncols = nlabels,
          rows = map (\<lambda>j. map2 (+) (star_labels cf mdl ds starting_guess j) (pivots mdl)) [0..<k]
                 @ replicate (nstars - k) (replicate nlabels 0)\<rparr>,
       errs_all = \<lparr>ncols = nlabels,
          rows = map (\<lambda>j. diagonal (star_covs cf mdl ds starting_guess j)) [0..<k]
                 @ replicate (nstars - k) (replicate nlabels 0)\<rparr>,
       chisq_all = map (star_chisq cf mdl ds starting_guess) [0..<k] @ replicate (nstars - k) 0\<rparr>)"

section \<open>A small instance\<close>

text \<open>
  One label, two pixels, two stars. The test optimizer fails with the exception it is
  given when the first entry of its target is negative, which is the case of the second
  star; otherwise it returns that entry as the label. \<open>wide_dataset\<close> is the same
  dataset with a training label table of three columns, which the model was not made
  for.
\<close>

definition toy_model :: cannon_model where
  "toy_model = \<lparr>coeffs = \<lparr>ncols = 3, rows = [[1, 1, 0], [1, 0, 1]]\<rparr>,
                scatters = [0, 0], chisqs = [0, 0], pivots = [5]\<rparr>"

definition toy_dataset :: dataset where
  "toy_dataset = \<lparr>tr_label = \<lparr>ncols = 1, rows = [[4], [6]]\<rparr>,
                  test_flux = \<lparr>ncols = 2, rows = [[2, 2], [0, 0]]\<rparr>,
                  test_ivar = \<lparr>ncols = 2, rows = [[1, 0], [1, 1]]\<rparr>,
                  test_label_vals = \<lparr>ncols = 1, rows = [[7], [7]]\<rparr>\<rparr>"

definition toy_fit :: "exn \<Rightarrow> curve_fit" where
  "toy_fit e f xdata ydata p0 sigma =
     (case ydata of
        [] \<Rightarrow> Inl e
      | y # _ \<Rightarrow> if y < 0 then Inl e else Inr ([y], \<lparr>ncols = 1, rows = [[1 / 4]]\<rparr>))"


section \<open>The label vector\<close>

lemma triu_sum: "k \<le> n \<Longrightarrow> 2 * (\<Sum>i\<leftarrow>[0..<k]. n - i) + k * k = k * (2 * n + 1)"
proof (induction k)
  case 0
  then show ?case by simp
next
  case (Suc k)
  then have ih: "2 * (\<Sum>i\<leftarrow>[0..<k]. n - i) + k * k = k * (2 * n + 1)" and kn: "k < n"
    by simp_all
  have "2 * (\<Sum>i\<leftarrow>[0..<Suc k]. n - i) + Suc k * Suc k
        = (2 * (\<Sum>i\<leftarrow>[0..<k]. n - i) + k * k) + 2 * (n - k) + 2 * k + 1"
    by simp
  also have "\<dots> = k * (2 * n + 1) + 2 * (n - k) + 2 * k + 1"
    by (simp only: ih)
  also have "\<dots> = Suc k * (2 * n + 1)"
    using kn by simp
  finally show ?case .
qed

lemma length_triu_indices: "length (triu_indices n) = n * (n + 1) div 2"
proof -
  have "length (triu_indices n) = (\<Sum>i\<leftarrow>[0..<n]. n - i)"
    by (simp add: triu_indices_def length_concat comp_def)
  moreover have "2 * (\<Sum>i\<leftarrow>[0..<n]. n - i) + n * n = n * (2 * n + 1)"
    by (rule triu_sum) simp
  then have "2 * (\<Sum>i\<leftarrow>[0..<n]. n - i) = n * (n + 1)"
    by (simp add: algebra_simps)
  ultimately show ?thesis by simp
qed

lemma outer_nth: "i < length xs \<Longrightarrow> j < length ys \<Longrightarrow> outer xs ys ! i ! j = xs ! i * ys ! j"
  by (simp add: outer_def)

lemma quadratic_terms_products:
  "map (\<lambda>(i, j). outer xs xs ! i ! j) (triu_indices (length xs))
   = concat (map (\<lambda>i. map (\<lambda>j. xs ! i * xs ! j) [i..<length xs]) [0..<length xs])"
proof -
  have inner: "map (\<lambda>i. map (\<lambda>j. outer xs xs ! i ! j) [i..<length xs]) [0..<length xs]
        = map (\<lambda>i. map (\<lambda>j. xs ! i * xs ! j) [i..<length xs]) [0..<length xs]"
    by (rule map_cong [OF refl], rule map_cong [OF refl]) (simp add: outer_nth)
  have "map (\<lambda>(i, j). outer xs xs ! i ! j) (triu_indices (length xs))
        = concat (map (\<lambda>i. map (\<lambda>j. outer xs xs ! i ! j) [i..<length xs]) [0..<length xs])"
    by (simp add: triu_indices_def map_concat comp_def)
  then show ?thesis
    by (simp only: inner)
qed

text \<open>
  C4. For a label tuple of any length \<open>n\<close> (in particular \<open>n \<ge> 1\<close>) the label vector has
  length \<open>n + n (n + 1) / 2\<close>; its first \<open>n\<close> entries are the labels unchanged; they are
  followed by the products \<open>label i * label j\<close> for \<open>i \<le> j\<close>, row by row of the upper
  triangle with the diagonal; and the labels \<open>(a, b)\<close> give \<open>(a, b, a a, a b, b b)\<close>.
\<close>

theorem get_lvec_contract:
  "length (get_lvec labels) = length labels + length labels * (length labels + 1) div 2
   \<and> take (length labels) (get_lvec labels) = labels
   \<and> drop (length labels) (get_lvec labels)
       = concat (map (\<lambda>i. map (\<lambda>j. labels ! i * labels ! j) [i..<length labels])
                  [0..<length labels])
   \<and> get_lvec [a, b] = [a, b, a * a, a * b, b * b]"
proof -
  have two: "[0..<2] = [0, Suc 0]" "[Suc 0..<2] = [Suc 0]"
    by (simp_all add: upt_rec)
  have len: "length (concat (map (\<lambda>i. map (\<lambda>j. labels ! i * labels ! j) [i..<length labels])
                  [0..<length labels])) = length labels * (length labels + 1) div 2"
    using length_triu_indices [of "length labels"]
    by (simp add: triu_indices_def length_concat comp_def)
  have pair: "get_lvec [a, b] = [a, b, a * a, a * b, b * b]"
    using quadratic_terms_products [of "[a, b]"] by (simp add: get_lvec_def two)
  have "length (get_lvec labels) = length labels + length labels * (length labels + 1) div 2"
    by (simp only: get_lvec_def Let_def quadratic_terms_products length_append len)
  moreover have "take (length labels) (get_lvec labels) = labels"
    by (simp add: get_lvec_def Let_def)
  moreover have "drop (length labels) (get_lvec labels)
       = concat (map (\<lambda>i. map (\<lambda>j. labels ! i * labels ! j) [i..<length labels])
                  [0..<length labels])"
    by (simp add: get_lvec_def Let_def quadratic_terms_products)
  ultimately show ?thesis
    using pair by simp
qed

lemma length_get_lvec: "length (get_lvec labels) = feature_length (length labels)"
  by (simp add: get_lvec_def Let_def length_triu_indices feature_length_def)

section \<open>Array operations\<close>

lemma bind_exn_Inr [simp]: "bind_exn (Inr x) f = f x"
  by (simp add: bind_exn_def)

lemma bind_exn_Inl [simp]: "bind_exn (Inl e) f = Inl e"
  by (simp add: bind_exn_def)

lemma bind_exn_Inr_iff: "bind_exn m f = Inr y \<longleftrightarrow> (\<exists>x. m = Inr x \<and> f x = Inr y)"
  by (cases m) simp_all

lemma broadcast_same: "length xs = length ys \<Longrightarrow> broadcast f xs ys = Inr (map2 f xs ys)"
  by (simp add: broadcast_def)

lemma select_filter:
  "map fst (filter snd (zip (map f ps) (map P ps))) = map f (filter P ps)"
  by (induction ps) simp_all

lemma count_filter: "length (filter id (map P ps)) = length (filter P ps)"
  by (induction ps) simp_all

lemma mask_store_filter:
  "mask_store (replicate (length ps) c) (map P ps) (map g (filter P ps))
   = map (\<lambda>p. if P p then g p else c) ps"
  by (induction ps) simp_all

lemma set_row_shape:
  "set_row a jj v = Inr a' \<Longrightarrow> nrows a' = nrows a \<and> ncols a' = ncols a \<and> (valid2d a \<longrightarrow> valid2d a')"
  by (auto simp: set_row_def nrows_def valid2d_def list_all_iff split: if_splits dest!: set_update_subset_insert [THEN subsetD])

lemma foldl_plus: "foldl (+) a xs = a + sum_list xs" for a :: real
  by (induction xs arbitrary: a) simp_all

lemma sum_chi2: "foldl (+) 0 (map f [0..<n]) = (\<Sum>i<n. f i)" for f :: "nat \<Rightarrow> real"
  by (simp add: foldl_plus interv_sum_list_conv_sum_set_nat atLeast0LessThan)

lemma update_next:
  "length xs = k \<Longrightarrow> k < n
   \<Longrightarrow> (xs @ replicate (n - k) z)[k := v] = (xs @ [v]) @ replicate (n - Suc k) z"
proof -
  assume len: "length xs = k" and kn: "k < n"
  from kn have "replicate (n - k) z = z # replicate (n - Suc k) z"
    by (cases "n - k") (simp_all add: Suc_diff_Suc)
  with len show ?thesis
    by (simp add: list_update_append)
qed

section \<open>The standard deviation of a pixel\<close>

lemma pixel_sigma_zip:
  "pixel_sigma flux (map fst ps) (map snd ps) =
     (if length ps = length flux
      then Inr (map (\<lambda>p. if fst p = 0 then LARGE else sqrt (1 / fst p + (snd p) ^ 2)) ps)
      else Inl IndexError)"
proof -
  let ?P = "\<lambda>p::real \<times> real. fst p \<noteq> 0"
  have good: "map Not (map (\<lambda>v. v = 0) (map fst ps)) = map ?P ps"
    by simp
  have sel1: "mask_select (map fst ps) (map ?P ps) = Inr (map fst (filter ?P ps))"
    by (simp add: mask_select_def select_filter)
  have sel2: "mask_select (map snd ps) (map ?P ps) = Inr (map snd (filter ?P ps))"
    by (simp add: mask_select_def select_filter)
  have var: "broadcast (+) (map (\<lambda>v. 1 / v) (map fst (filter ?P ps))) (map (\<lambda>s. s ^ 2) (map snd (filter ?P ps)))
             = Inr (map (\<lambda>p. 1 / fst p + (snd p) ^ 2) (filter ?P ps))"
    by (simp add: broadcast_same zip_map_map map_zip_map) (simp add: zip_same_conv_map)
  have store: "length ps = length flux \<Longrightarrow>
      mask_assign (map (\<lambda>one. one * LARGE) (replicate (length flux) 1)) (map ?P ps)
         (map sqrt (map (\<lambda>p. 1 / fst p + (snd p) ^ 2) (filter ?P ps)))
      = Inr (map (\<lambda>p. if ?P p then sqrt (1 / fst p + (snd p) ^ 2) else LARGE) ps)"
    using mask_store_filter [of ps LARGE ?P "\<lambda>p. sqrt (1 / fst p + (snd p) ^ 2)"]
    by (simp add: mask_assign_def count_filter comp_def)
  have nostore: "length ps \<noteq> length flux \<Longrightarrow>
      mask_assign (map (\<lambda>one. one * LARGE) (replicate (length flux) 1)) (map ?P ps) vs = Inl IndexError" for vs
    by (simp add: mask_assign_def)
  have unfolded: "pixel_sigma flux (map fst ps) (map snd ps)
      = mask_assign (map (\<lambda>one. one * LARGE) (replicate (length flux) 1)) (map ?P ps)
         (map sqrt (map (\<lambda>p. 1 / fst p + (snd p) ^ 2) (filter ?P ps)))"
    unfolding pixel_sigma_def Let_def good sel1 sel2 bind_exn_Inr var ..
  show ?thesis
  proof (cases "length ps = length flux")
    case True
    have "map (\<lambda>p. if ?P p then sqrt (1 / fst p + (snd p) ^ 2) else LARGE) ps
          = map (\<lambda>p. if fst p = 0 then LARGE else sqrt (1 / fst p + (snd p) ^ 2)) ps"
      by simp
    with True show ?thesis
      by (simp only: unfolded store [OF True]) simp
  next
    case False
    then show ?thesis
      by (simp add: unfolded mask_assign_def)
  qed
qed

lemma pixel_sigma_eq:
  assumes "length ivar = length flux" "length scat = length flux"
  shows "pixel_sigma flux ivar scat = Inr (map2 effective_sigma ivar scat)"
proof -
  have "pixel_sigma flux ivar scat
        = pixel_sigma flux (map fst (zip ivar scat)) (map snd (zip ivar scat))"
    using assms by simp
  also have "\<dots> = Inr (map (\<lambda>p. if fst p = 0 then LARGE else sqrt (1 / fst p + (snd p) ^ 2))
                          (zip ivar scat))"
    unfolding pixel_sigma_zip using assms by simp
  also have "\<dots> = Inr (map2 effective_sigma ivar scat)"
    by (simp add: effective_sigma_def LARGE_def case_prod_beta)
  finally show ?thesis .
qed

text \<open>
  C5. When inverse variance and scatter have the flux's length, the standard deviation
  of a pixel is the constant \<open>LARGE = 200\<close> when the pixel's inverse variance is zero,
  whatever its scatter, and \<open>sqrt (1 / ivar + scatter\<^sup>2)\<close> otherwise.
\<close>

theorem pixel_sigma_contract:
  assumes "length ivar = length flux" "length scat = length flux"
  shows "\<exists>sig. pixel_sigma flux ivar scat = Inr sig \<and> length sig = length flux
           \<and> (\<forall>i<length flux.
                 sig ! i = (if ivar ! i = 0 then LARGE else sqrt (1 / ivar ! i + (scat ! i) ^ 2)))
           \<and> LARGE = 200"
  using assms by (simp add: pixel_sigma_eq effective_sigma_def LARGE_def)

theorem pixel_sigma_contract_witness:
  "length [1, 0 :: real] = length [2, 2 :: real] \<and> length [0, 0 :: real] = length [2, 2 :: real]
   \<and> pixel_sigma [2, 2] [1, 0] [0, 0] = Inr [1, 200]"
proof -
  from pixel_sigma_contract [of "[1, 0]" "[2, 2]" "[0, 0]"]
  obtain sig where sig: "pixel_sigma [2, 2] [1, 0] [0, 0] = Inr sig" "length sig = 2"
    and nth: "\<forall>i<2. sig ! i = (if [1, 0 :: real] ! i = 0 then LARGE
                                  else sqrt (1 / [1, 0] ! i + ([0, 0] ! i) ^ 2))"
    and large: "LARGE = 200"
    by auto
  from nth large have "sig ! 0 = 1" "sig ! Suc 0 = 200"
    by (simp_all add: numeral_2_eq_2)
  with sig(2) have "sig = [1, 200]"
    by (cases sig; cases "tl sig") auto
  with sig(1) show ?thesis
    by simp
qed

section \<open>The chi-square terms\<close>

lemma chi2_terms_eq:
  assumes "ncols cs = feature_length (length labels)" "nrows cs = n"
    and "length flux_piv = n" "length ivar = n" "length scat = n"
  shows "chi2_terms cs flux_piv labels ivar scat
         = Inr (map (\<lambda>i. chi2_pixel (flux_piv ! i - prediction cs labels i) (ivar ! i) (scat ! i)) [0..<n])"
proof -
  have pred: "func cs labels = Inr (map (\<lambda>r. sum_list (map2 (*) r (get_lvec labels))) (rows cs))"
    using assms(1) by (simp add: func_def dot_def length_get_lvec)
  have "chi2_terms cs flux_piv labels ivar scat
        = Inr (map2 (/)
                (map2 (*) (map (\<lambda>r. r ^ 2)
                  (map2 (-) flux_piv (map (\<lambda>r. sum_list (map2 (*) r (get_lvec labels))) (rows cs)))) ivar)
                (map (\<lambda>x. 1 + x) (map2 (*) ivar (map (\<lambda>s. s ^ 2) scat))))"
    using assms by (simp add: chi2_terms_def pred broadcast_same nrows_def)
  also have "\<dots> = Inr (map (\<lambda>i. chi2_pixel (flux_piv ! i - prediction cs labels i) (ivar ! i) (scat ! i)) [0..<n])"
    using assms by (auto intro!: nth_equalityI simp: chi2_pixel_def prediction_def nrows_def)
  finally show ?thesis .
qed

text \<open>
  C10. A pixel whose inverse variance is zero contributes exactly zero to the star's
  chi-square, whatever its residual and its scatter.
\<close>

theorem chi2_terms_zero_ivar:
  assumes "ncols cs = length (get_lvec labels)" "nrows cs = length flux_piv"
    and "length ivar = length flux_piv" "length scat = length flux_piv"
    and "i < length flux_piv" "ivar ! i = 0"
  shows "\<exists>chi2. chi2_terms cs flux_piv labels ivar scat = Inr chi2
           \<and> length chi2 = length flux_piv \<and> chi2 ! i = 0"
proof -
  have "chi2_terms cs flux_piv labels ivar scat
        = Inr (map (\<lambda>i. chi2_pixel (flux_piv ! i - prediction cs labels i) (ivar ! i) (scat ! i))
                 [0..<length flux_piv])"
    using assms(1-4) by (intro chi2_terms_eq) (simp_all add: length_get_lvec)
  with assms(5,6) show ?thesis
    by (simp add: chi2_pixel_def)
qed

theorem chi2_terms_zero_ivar_witness:
  "[1, 0 :: real] ! 1 = 0
   \<and> chi2_terms \<lparr>ncols = 2, rows = [[1, 0], [0, 1]]\<rparr> [3, 7] [1] [1, 0] [0, 5] = Inr [4, 0]"
proof -
  from chi2_terms_zero_ivar [of "\<lparr>ncols = 2, rows = [[1, 0], [0, 1]]\<rparr>" "[1]" "[3, 7]" "[1, 0]" "[0, 5]" 1]
  obtain chi2 where "chi2_terms \<lparr>ncols = 2, rows = [[1, 0], [0, 1]]\<rparr> [3, 7] [1] [1, 0] [0, 5] = Inr chi2"
    and "length chi2 = 2" and "chi2 ! 1 = 0"
    by (auto simp: length_get_lvec feature_length_def nrows_def)
  moreover have "chi2_terms \<lparr>ncols = 2, rows = [[1, 0], [0, 1]]\<rparr> [3, 7] [1] [1, 0] [0, 5] = Inr [4, 0]"
    by (simp add: chi2_terms_def func_def dot_def get_lvec_def triu_indices_def outer_def broadcast_def upt_rec)
  ultimately show ?thesis
    by simp
qed

section \<open>The fit and its failure\<close>

lemma fit_labels_sentinel:
  "cf func cs flux_piv starting_guess sig = Inl RuntimeError
   \<Longrightarrow> fit_labels cf cs flux_piv starting_guess sig
       = Inr (replicate (length starting_guess) (- 9999),
              \<lparr>ncols = length starting_guess,
               rows = replicate (length starting_guess) (replicate (length starting_guess) (- 9999))\<rparr>)"
  by (simp add: fit_labels_def minus_scalar_def minus_scalar2_def zeros1_def zeros2_def)

lemma fit_labels_raise:
  "cf func cs flux_piv starting_guess sig = Inl e \<Longrightarrow> e \<noteq> RuntimeError
   \<Longrightarrow> fit_labels cf cs flux_piv starting_guess sig = Inl e"
  by (simp add: fit_labels_def)

lemma fit_labels_success:
  "cf func cs flux_piv starting_guess sig = Inr r
   \<Longrightarrow> fit_labels cf cs flux_piv starting_guess sig = Inr r"
  by (cases r) (simp add: fit_labels_def)

lemma fit_labels_star:
  assumes "fit_ok cf mdl ds sg jj"
  shows "fit_labels cf (offset_removed (coeffs mdl)) (star_flux_piv mdl ds jj) sg (star_sigma mdl ds jj)
         = Inr (star_labels cf mdl ds sg jj, star_covs cf mdl ds sg jj)"
    and "length (star_labels cf mdl ds sg jj) = length sg"
    and "length (diagonal (star_covs cf mdl ds sg jj)) = length sg"
proof -
  let ?fit = "cf func (offset_removed (coeffs mdl)) (star_flux_piv mdl ds jj) sg (star_sigma mdl ds jj)"
  show "fit_labels cf (offset_removed (coeffs mdl)) (star_flux_piv mdl ds jj) sg (star_sigma mdl ds jj)
         = Inr (star_labels cf mdl ds sg jj, star_covs cf mdl ds sg jj)"
  proof (cases ?fit)
    case (Inl e)
    with assms have "e = RuntimeError"
      by (simp add: fit_ok_def star_fit_def)
    with Inl show ?thesis
      by (simp add: fit_labels_sentinel star_labels_def star_covs_def star_fit_def)
  next
    case (Inr r)
    then show ?thesis
      by (cases r) (simp add: fit_labels_success star_labels_def star_covs_def star_fit_def)
  qed
  show "length (star_labels cf mdl ds sg jj) = length sg"
    using assms by (auto simp: fit_ok_def star_labels_def split: sum.splits)
  show "length (diagonal (star_covs cf mdl ds sg jj)) = length sg"
    using assms by (auto simp: fit_ok_def star_covs_def diagonal_def nrows_def split: sum.splits)
qed

text \<open>
  C1. When the optimizer raises \<open>RuntimeError\<close>, the fit raises nothing: it returns
  labels of the starting guess's length and a square covariance matrix of that size,
  every entry of both equal to \<open>-9999\<close>.
\<close>

theorem fit_labels_runtime_error:
  assumes "cf func cs flux_piv starting_guess sig = Inl RuntimeError"
  shows "\<exists>labels covs.
           fit_labels cf cs flux_piv starting_guess sig = Inr (labels, covs)
         \<and> labels = replicate (length starting_guess) (- 9999)
         \<and> nrows covs = length starting_guess \<and> ncols covs = length starting_guess
         \<and> rows covs = replicate (length starting_guess) (replicate (length starting_guess) (- 9999))"
  using assms fit_labels_sentinel [of cf cs flux_piv starting_guess sig] by (simp add: nrows_def)

theorem fit_labels_runtime_error_witness:
  "toy_fit RuntimeError func (offset_removed (coeffs toy_model)) [- 1, - 1] [0] [1, 1] = Inl RuntimeError
   \<and> (\<exists>labels covs.
         fit_labels (toy_fit RuntimeError) (offset_removed (coeffs toy_model)) [- 1, - 1] [0] [1, 1]
           = Inr (labels, covs)
       \<and> labels = [- 9999] \<and> nrows covs = 1 \<and> ncols covs = 1 \<and> rows covs = [[- 9999]])"
proof -
  have failed: "toy_fit RuntimeError func (offset_removed (coeffs toy_model)) [- 1, - 1] [0] [1, 1]
                = Inl RuntimeError"
    by (simp add: toy_fit_def)
  from failed
    fit_labels_runtime_error [of "toy_fit RuntimeError" "offset_removed (coeffs toy_model)"
      "[- 1, - 1]" "[0]" "[1, 1]"]
  show ?thesis
    by simp
qed

section \<open>One star and the loop\<close>

lemma pivot_flux_eq:
  "0 < ncols c \<Longrightarrow> length flux = nrows c
   \<Longrightarrow> pivot_flux c flux = Inr (map2 (-) flux (map (\<lambda>r. r ! 0) (rows c)))"
  by (simp add: pivot_flux_def column0_def broadcast_same nrows_def)

lemma delete_column0_eq: "0 < ncols c \<Longrightarrow> delete_column0 c = Inr (offset_removed c)"
  by (simp add: delete_column0_def offset_removed_def)

lemma star_body_ok:
  assumes ws: "well_shaped mdl ds sg"
    and jj: "jj < nrows (test_flux ds)"
    and fit: "fit_ok cf mdl ds sg jj"
    and st: "state_shape (nrows (test_flux ds)) (ncols (tr_label ds)) st"
  shows "star_body cf mdl ds sg jj st = Inr (store_star cf mdl ds sg jj st)"
proof -
  let ?n = "nrows (coeffs mdl)"
  let ?flux = "rows (test_flux ds) ! jj" and ?ivar = "rows (test_ivar ds) ! jj"
  from ws jj have lens: "length ?flux = ?n" "length ?ivar = ?n" "length (scatters mdl) = ?n"
    by (simp_all add: well_shaped_def valid2d_def list_all_length nrows_def)
  from ws have nc: "0 < ncols (coeffs mdl)"
    and width: "ncols (offset_removed (coeffs mdl)) = feature_length (length sg)"
    and height: "nrows (offset_removed (coeffs mdl)) = ?n"
    by (simp_all add: well_shaped_def offset_removed_def nrows_def)
  have row1: "get_row (test_flux ds) jj = Inr ?flux"
    using jj by (simp add: get_row_def)
  have row2: "get_row (test_ivar ds) jj = Inr ?ivar"
    using jj ws by (simp add: get_row_def well_shaped_def)
  have piv: "pivot_flux (coeffs mdl) ?flux = Inr (star_flux_piv mdl ds jj)"
    using nc lens by (simp add: pivot_flux_eq star_flux_piv_def)
  have sig: "pixel_sigma ?flux ?ivar (scatters mdl) = Inr (star_sigma mdl ds jj)"
    using lens by (simp add: pixel_sigma_eq star_sigma_def)
  have del: "delete_column0 (coeffs mdl) = Inr (offset_removed (coeffs mdl))"
    using nc by (rule delete_column0_eq)
  note fitted = fit_labels_star [OF fit]
  have lfp: "length (star_flux_piv mdl ds jj) = ?n"
    using lens by (simp add: star_flux_piv_def nrows_def)
  have chi: "chi2_terms (offset_removed (coeffs mdl)) (star_flux_piv mdl ds jj)
               (star_labels cf mdl ds sg jj) ?ivar (scatters mdl)
             = Inr (map (\<lambda>i. chi2_pixel (star_flux_piv mdl ds jj ! i
                    - prediction (offset_removed (coeffs mdl)) (star_labels cf mdl ds sg jj) i)
                   (?ivar ! i) (scatters mdl ! i)) [0..<?n])"
    using width height lfp lens fitted(2) by (intro chi2_terms_eq) simp_all
  have item: "set_item (chisq_all st) jj x = Inr ((chisq_all st)[jj := x])" for x
    using st jj by (simp add: set_item_def state_shape_def)
  have lp: "broadcast (+) (star_labels cf mdl ds sg jj) (pivots mdl)
            = Inr (map2 (+) (star_labels cf mdl ds sg jj) (pivots mdl))"
    using ws fitted(2) by (simp add: broadcast_same well_shaped_def)
  have set1: "set_row (labels_all st) jj (map2 (+) (star_labels cf mdl ds sg jj) (pivots mdl))
              = Inr ((labels_all st)\<lparr>rows := (rows (labels_all st))
                      [jj := map2 (+) (star_labels cf mdl ds sg jj) (pivots mdl)]\<rparr>)"
    using ws st jj fitted(2) by (simp add: set_row_def state_shape_def well_shaped_def)
  have set2: "set_row (errs_all st) jj (diagonal (star_covs cf mdl ds sg jj))
              = Inr ((errs_all st)\<lparr>rows := (rows (errs_all st))
                      [jj := diagonal (star_covs cf mdl ds sg jj)]\<rparr>)"
    using ws st jj fitted(3) by (simp add: set_row_def state_shape_def well_shaped_def)
  show ?thesis
    unfolding star_body_def
    by (simp add: row1 row2 piv sig del fitted(1) chi item lp set1 set2 sum_chi2
        store_star_def star_chisq_def)
qed

lemma star_body_raise:
  assumes ws: "well_shaped mdl ds sg"
    and jj: "jj < nrows (test_flux ds)"
    and fit: "star_fit cf mdl ds sg jj = Inl e" and e: "e \<noteq> RuntimeError"
  shows "star_body cf mdl ds sg jj st = Inl e"
proof -
  let ?n = "nrows (coeffs mdl)"
  let ?flux = "rows (test_flux ds) ! jj" and ?ivar = "rows (test_ivar ds) ! jj"
  from ws jj have lens: "length ?flux = ?n" "length ?ivar = ?n" "length (scatters mdl) = ?n"
    by (simp_all add: well_shaped_def valid2d_def list_all_length nrows_def)
  from ws have nc: "0 < ncols (coeffs mdl)"
    by (simp add: well_shaped_def)
  have row1: "get_row (test_flux ds) jj = Inr ?flux"
    using jj by (simp add: get_row_def)
  have row2: "get_row (test_ivar ds) jj = Inr ?ivar"
    using jj ws by (simp add: get_row_def well_shaped_def)
  have piv: "pivot_flux (coeffs mdl) ?flux = Inr (star_flux_piv mdl ds jj)"
    using nc lens by (simp add: pivot_flux_eq star_flux_piv_def)
  have sig: "pixel_sigma ?flux ?ivar (scatters mdl) = Inr (star_sigma mdl ds jj)"
    using lens by (simp add: pixel_sigma_eq star_sigma_def)
  have del: "delete_column0 (coeffs mdl) = Inr (offset_removed (coeffs mdl))"
    using nc by (rule delete_column0_eq)
  have "fit_labels cf (offset_removed (coeffs mdl)) (star_flux_piv mdl ds jj) sg (star_sigma mdl ds jj)
        = Inl e"
    using fit e by (intro fit_labels_raise) (simp_all add: star_fit_def)
  then show ?thesis
    unfolding star_body_def by (simp add: row1 row2 piv sig del)
qed

lemma stars_loop_append:
  "stars_loop cf mdl ds sg (xs @ ys) st
   = bind_exn (stars_loop cf mdl ds sg xs st) (stars_loop cf mdl ds sg ys)"
  by (induction xs arbitrary: st) (auto simp: bind_exn_def split: sum.splits)

lemma partial_state_shape:
  "k \<le> nrows (test_flux ds)
   \<Longrightarrow> state_shape (nrows (test_flux ds)) (ncols (tr_label ds)) (partial_state cf mdl ds sg k)"
  by (simp add: state_shape_def partial_state_def Let_def nrows_def)

lemma store_partial:
  assumes "k < nrows (test_flux ds)"
  shows "store_star cf mdl ds sg k (partial_state cf mdl ds sg k) = partial_state cf mdl ds sg (Suc k)"
  using assms by (simp add: store_star_def partial_state_def Let_def update_next)

lemma stars_loop_prefix:
  assumes ws: "well_shaped mdl ds sg"
    and fits: "\<And>j. j < k \<Longrightarrow> fit_ok cf mdl ds sg j"
    and k: "k \<le> nrows (test_flux ds)"
  shows "stars_loop cf mdl ds sg [0..<k] (partial_state cf mdl ds sg 0) = Inr (partial_state cf mdl ds sg k)"
  using fits k
proof (induction k)
  case 0
  then show ?case by simp
next
  case (Suc k)
  then have prefix: "stars_loop cf mdl ds sg [0..<k] (partial_state cf mdl ds sg 0)
                     = Inr (partial_state cf mdl ds sg k)"
    and kn: "k < nrows (test_flux ds)" and fit: "fit_ok cf mdl ds sg k"
    by simp_all
  have "star_body cf mdl ds sg k (partial_state cf mdl ds sg k)
        = Inr (store_star cf mdl ds sg k (partial_state cf mdl ds sg k))"
    using ws kn fit by (intro star_body_ok partial_state_shape) simp_all
  then show ?case
    using kn by (simp add: stars_loop_append prefix store_partial)
qed

lemma initial_state:
  "\<lparr>labels_all = zeros2 (nrows (test_flux ds)) (ncols (tr_label ds)),
    errs_all = zeros2 (nrows (test_flux ds)) (ncols (tr_label ds)),
    chisq_all = zeros1 (nrows (test_flux ds))\<rparr> = partial_state cf mdl ds sg 0"
  by (simp add: partial_state_def Let_def zeros2_def zeros1_def)

lemma infer_labels_loop:
  "infer_labels cf mdl ds sg =
     (if ncols (coeffs mdl) = 0 then (Inl ValueError, ds)
      else case stars_loop cf mdl ds sg [0..<nrows (test_flux ds)] (partial_state cf mdl ds sg 0) of
        Inl e \<Rightarrow> (Inl e, ds)
      | Inr st \<Rightarrow> (Inr (errs_all st, chisq_all st), set_test_label_vals (labels_all st) ds))"
  by (simp add: infer_labels_def Let_def initial_state [of ds cf mdl sg])

lemma infer_labels_ok:
  assumes ws: "well_shaped mdl ds sg"
    and fits: "\<forall>j<nrows (test_flux ds). fit_ok cf mdl ds sg j"
  shows "infer_labels cf mdl ds sg =
     (Inr (\<lparr>ncols = ncols (tr_label ds),
            rows = map (\<lambda>j. diagonal (star_covs cf mdl ds sg j)) [0..<nrows (test_flux ds)]\<rparr>,
           map (star_chisq cf mdl ds sg) [0..<nrows (test_flux ds)]),
      set_test_label_vals
        \<lparr>ncols = ncols (tr_label ds),
         rows = map (\<lambda>j. map2 (+) (star_labels cf mdl ds sg j) (pivots mdl)) [0..<nrows (test_flux ds)]\<rparr>
        ds)"
proof -
  from ws have nc: "ncols (coeffs mdl) \<noteq> 0"
    by (simp add: well_shaped_def)
  have "stars_loop cf mdl ds sg [0..<nrows (test_flux ds)] (partial_state cf mdl ds sg 0)
        = Inr (partial_state cf mdl ds sg (nrows (test_flux ds)))"
    using ws fits by (intro stars_loop_prefix) simp_all
  then show ?thesis
    using nc by (simp add: infer_labels_loop partial_state_def Let_def)
qed

lemma infer_labels_raise:
  assumes ws: "well_shaped mdl ds sg"
    and k: "k < nrows (test_flux ds)"
    and fits: "\<forall>j<k. fit_ok cf mdl ds sg j"
    and fit: "star_fit cf mdl ds sg k = Inl e" and e: "e \<noteq> RuntimeError"
  shows "infer_labels cf mdl ds sg = (Inl e, ds)"
proof -
  from ws have nc: "ncols (coeffs mdl) \<noteq> 0"
    by (simp add: well_shaped_def)
  have split: "[0..<nrows (test_flux ds)] = [0..<k] @ k # [Suc k..<nrows (test_flux ds)]"
  proof -
    have "[0..<nrows (test_flux ds)] = [0..<k] @ [k..<nrows (test_flux ds)]"
      using k upt_add_eq_append [of 0 k "nrows (test_flux ds) - k"] by simp
    also have "[k..<nrows (test_flux ds)] = k # [Suc k..<nrows (test_flux ds)]"
      using k by (simp add: upt_conv_Cons)
    finally show ?thesis .
  qed
  have "stars_loop cf mdl ds sg [0..<k] (partial_state cf mdl ds sg 0) = Inr (partial_state cf mdl ds sg k)"
    using ws fits k by (intro stars_loop_prefix) simp_all
  moreover have "star_body cf mdl ds sg k (partial_state cf mdl ds sg k) = Inl e"
    using ws k fit e by (rule star_body_raise)
  ultimately have "stars_loop cf mdl ds sg [0..<nrows (test_flux ds)] (partial_state cf mdl ds sg 0) = Inl e"
    by (simp add: split stars_loop_append)
  then show ?thesis
    using nc by (simp add: infer_labels_loop)
qed

lemma star_body_valid:
  assumes "star_body cf mdl ds sg jj st = Inr st'" "state_valid n m st"
  shows "state_valid n m st'"
proof -
  from assms(1) obtain l1 l2 e2 x c where
    l: "set_row (labels_all st) jj l1 = Inr l2" and e: "set_row (errs_all st) jj e2 = Inr (errs_all st')"
    and c: "set_item (chisq_all st) jj x = Inr c" and st': "labels_all st' = l2" "chisq_all st' = c"
    by (auto simp: star_body_def bind_exn_Inr_iff split: prod.splits)
  from c have "length c = length (chisq_all st)"
    by (auto simp: set_item_def split: if_splits)
  with set_row_shape [OF l] set_row_shape [OF e] st' assms(2) show ?thesis
    by (simp add: state_valid_def state_shape_def)
qed

lemma stars_loop_valid:
  "stars_loop cf mdl ds sg jjs st = Inr st' \<Longrightarrow> state_valid n m st \<Longrightarrow> state_valid n m st'"
proof (induction jjs arbitrary: st)
  case Nil
  then show ?case by simp
next
  case (Cons jj jjs)
  from Cons.prems(1) obtain st1 where
    "star_body cf mdl ds sg jj st = Inr st1" "stars_loop cf mdl ds sg jjs st1 = Inr st'"
    by (auto simp: bind_exn_Inr_iff)
  with Cons.IH [of st1] Cons.prems(2) show ?case
    by (auto dest: star_body_valid)
qed

lemma initial_state_valid:
  "state_valid n m \<lparr>labels_all = zeros2 n m, errs_all = zeros2 n m, chisq_all = zeros1 n\<rparr>"
  by (simp add: state_valid_def state_shape_def zeros2_def zeros1_def nrows_def valid2d_def list_all_iff)

lemma infer_labels_replay:
  "infer_labels cf mdl ds sg
   = (fst (infer_labels_trace cf mdl ds sg), fold apply_call (snd (infer_labels_trace cf mdl ds sg)) ds)"
  by (simp add: infer_labels_def infer_labels_trace_def Let_def split: sum.splits)


section \<open>The small instance, evaluated\<close>

lemma upt_2: "[0..<2] = [0, Suc 0]"
  by (simp add: upt_rec)

lemma toy_well_shaped: "well_shaped toy_model toy_dataset [0]"
  by (simp add: well_shaped_def toy_model_def toy_dataset_def valid2d_def nrows_def feature_length_def)

lemma toy_nstars: "nrows (test_flux toy_dataset) = 2"
  by (simp add: toy_dataset_def nrows_def)

lemma toy_eval:
  "offset_removed (coeffs toy_model) = \<lparr>ncols = 2, rows = [[1, 0], [0, 1]]\<rparr>"
  "ncols (coeffs toy_model) = 3"
  "map tl (rows (coeffs toy_model)) = [[1, 0], [0, 1]]"
  "map (\<lambda>r. r ! 0) (rows (coeffs toy_model)) = [1, 1]"
  "nrows (coeffs toy_model) = 2"
  "pivots toy_model = [5]"
  "scatters toy_model = [0, 0]"
  "rows (test_flux toy_dataset) ! 0 = [2, 2]"
  "rows (test_ivar toy_dataset) ! 0 = [1, 0]"
  "rows (test_ivar toy_dataset) ! Suc 0 = [1, 1]"
  "ncols (tr_label toy_dataset) = 1"
  by (simp_all add: toy_model_def toy_dataset_def offset_removed_def nrows_def)

lemma toy_flux_piv:
  "star_flux_piv toy_model toy_dataset 0 = [1, 1]"
  "star_flux_piv toy_model toy_dataset (Suc 0) = [- 1, - 1]"
  by (simp_all add: star_flux_piv_def toy_model_def toy_dataset_def)

lemma toy_star_fit:
  "star_fit (toy_fit e) toy_model toy_dataset [0] 0 = Inr ([1], \<lparr>ncols = 1, rows = [[1 / 4]]\<rparr>)"
  "star_fit (toy_fit e) toy_model toy_dataset [0] (Suc 0) = Inl e"
  by (simp_all add: star_fit_def toy_fit_def toy_flux_piv)

lemma toy_fit_ok:
  "fit_ok (toy_fit e) toy_model toy_dataset [0] 0"
  "fit_ok (toy_fit RuntimeError) toy_model toy_dataset [0] (Suc 0)"
  by (simp_all add: fit_ok_def toy_star_fit valid2d_def nrows_def)

lemma toy_fits_ok:
  "\<forall>j<nrows (test_flux toy_dataset). fit_ok (toy_fit RuntimeError) toy_model toy_dataset [0] j"
  using toy_fit_ok(1) [of RuntimeError] toy_fit_ok(2) by (auto simp: toy_nstars less_2_cases_iff)

lemma toy_result:
  "test_label_vals (snd (infer_labels (toy_fit RuntimeError) toy_model toy_dataset [0]))
    = \<lparr>ncols = 1, rows = [[6], [- 9994]]\<rparr>
  \<and> fst (projr (fst (infer_labels (toy_fit RuntimeError) toy_model toy_dataset [0])))
    = \<lparr>ncols = 1, rows = [[1 / 4], [- 9999]]\<rparr>"
  by (simp add: infer_labels_ok [OF toy_well_shaped toy_fits_ok] toy_nstars upt_2 star_labels_def
      star_covs_def toy_star_fit set_test_label_vals_def)
    (simp add: toy_model_def toy_dataset_def diagonal_def nrows_def)


section \<open>The inference driver\<close>

text \<open>
  C3. On well-shaped input, the chi-square recorded for star \<open>jj\<close> is the sum over the
  pixels of \<open>residual\<^sup>2 * ivar / (1 + ivar * scatter\<^sup>2)\<close>, the residual being the flux
  relative to the offset column minus the model's prediction at the labels the fit
  returned; when the fit failed these labels are the \<open>-9999\<close> ones, and the chi-square is
  recorded all the same.
\<close>

theorem star_chisq_recorded:
  assumes "well_shaped mdl ds sg"
    and "\<forall>j<nrows (test_flux ds). fit_ok cf mdl ds sg j"
    and "jj < nrows (test_flux ds)"
  shows "\<exists>errs chis labels covs pre.
           fst (infer_labels cf mdl ds sg) = Inr (errs, chis)
         \<and> fit_labels cf (offset_removed (coeffs mdl)) (star_flux_piv mdl ds jj) sg (star_sigma mdl ds jj)
             = Inr (labels, covs)
         \<and> (if star_fit cf mdl ds sg jj = Inl RuntimeError
             then labels = replicate (length sg) (- 9999)
             else star_fit cf mdl ds sg jj = Inr (labels, covs))
         \<and> func (offset_removed (coeffs mdl)) labels = Inr pre
         \<and> chis ! jj =
             (\<Sum>i<nrows (coeffs mdl).
                (star_flux_piv mdl ds jj ! i - pre ! i) ^ 2 * (rows (test_ivar ds) ! jj ! i)
                / (1 + rows (test_ivar ds) ! jj ! i * (scatters mdl ! i) ^ 2))"
proof -
  let ?cs = "offset_removed (coeffs mdl)" and ?labels = "star_labels cf mdl ds sg jj"
  from assms(2,3) have ok: "fit_ok cf mdl ds sg jj"
    by simp
  note fitted = fit_labels_star [OF ok]
  from assms(1) fitted(2) have width: "ncols ?cs = length (get_lvec ?labels)"
    by (simp add: well_shaped_def offset_removed_def length_get_lvec)
  then have pre: "func ?cs ?labels = Inr (map (\<lambda>r. sum_list (map2 (*) r (get_lvec ?labels))) (rows ?cs))"
    by (simp add: func_def dot_def)
  have nth: "map (\<lambda>r. sum_list (map2 (*) r (get_lvec ?labels))) (rows ?cs) ! i = prediction ?cs ?labels i"
    if "i < nrows (coeffs mdl)" for i
    using that by (simp add: prediction_def offset_removed_def nrows_def)
  have chis: "map (star_chisq cf mdl ds sg) [0..<nrows (test_flux ds)] ! jj
      = (\<Sum>i<nrows (coeffs mdl).
          (star_flux_piv mdl ds jj ! i - map (\<lambda>r. sum_list (map2 (*) r (get_lvec ?labels))) (rows ?cs) ! i) ^ 2
          * (rows (test_ivar ds) ! jj ! i) / (1 + rows (test_ivar ds) ! jj ! i * (scatters mdl ! i) ^ 2))"
    using assms(3) by (simp add: star_chisq_def chi2_pixel_def nth)
  have branch: "if star_fit cf mdl ds sg jj = Inl RuntimeError
             then ?labels = replicate (length sg) (- 9999)
             else star_fit cf mdl ds sg jj = Inr (?labels, star_covs cf mdl ds sg jj)"
    using ok by (auto simp: fit_ok_def star_labels_def star_covs_def split: sum.splits)
  show ?thesis
    using infer_labels_ok [OF assms(1,2)] fitted(1) branch pre chis by auto
qed

theorem star_chisq_recorded_witness:
  "well_shaped toy_model toy_dataset [0]
   \<and> fit_ok (toy_fit RuntimeError) toy_model toy_dataset [0] 0
   \<and> fit_ok (toy_fit RuntimeError) toy_model toy_dataset [0] (Suc 0)
   \<and> star_fit (toy_fit RuntimeError) toy_model toy_dataset [0] (Suc 0) = Inl RuntimeError
   \<and> (\<exists>errs chis. fst (infer_labels (toy_fit RuntimeError) toy_model toy_dataset [0]) = Inr (errs, chis)
         \<and> chis ! Suc 0 = 9996000899880008)"
proof -
  from star_chisq_recorded [OF toy_well_shaped toy_fits_ok, of "Suc 0"]
  obtain errs chis labels covs pre where
    res: "fst (infer_labels (toy_fit RuntimeError) toy_model toy_dataset [0]) = Inr (errs, chis)"
    and labels: "labels = [- 9999]"
    and pre: "func \<lparr>ncols = 2, rows = [[1, 0], [0, 1]]\<rparr> labels = Inr pre"
    and chi: "chis ! Suc 0 =
             (\<Sum>i<2. ([- 1, - 1] ! i - pre ! i) ^ 2 * ([1, 1] ! i) / (1 + [1, 1] ! i * ([0, 0] ! i) ^ 2))"
    by (auto simp: toy_nstars toy_star_fit toy_eval toy_flux_piv)
  from pre labels have "pre = [- 9999, 99980001]"
    by (simp add: func_def dot_def get_lvec_def triu_indices_def outer_def)
  with chi have "chis ! Suc 0 = 9996000899880008"
    by (simp add: lessThan_Suc numeral_2_eq_2)
  with res toy_well_shaped toy_fit_ok(1) [of RuntimeError] toy_fit_ok(2) toy_star_fit(2) [of RuntimeError]
  show ?thesis
    by simp
qed

text \<open>
  C6. On well-shaped input, the optimizer of star \<open>jj\<close> receives the coefficient
  matrix without its column 0 and, as its target, the star's flux minus that column; the
  labels stored for the star are the fitted labels plus the pivot.
\<close>

theorem offset_removed_and_pivot_restored:
  assumes "well_shaped mdl ds sg"
    and "\<forall>j<nrows (test_flux ds). fit_ok cf mdl ds sg j"
    and "jj < nrows (test_flux ds)"
  shows "\<exists>labels covs.
           fit_labels cf
             \<lparr>ncols = ncols (coeffs mdl) - 1, rows = map tl (rows (coeffs mdl))\<rparr>
             (map2 (-) (rows (test_flux ds) ! jj) (map (\<lambda>r. r ! 0) (rows (coeffs mdl))))
             sg (star_sigma mdl ds jj)
             = Inr (labels, covs)
         \<and> rows (test_label_vals (snd (infer_labels cf mdl ds sg))) ! jj = map2 (+) labels (pivots mdl)"
proof -
  from assms(2,3) have ok: "fit_ok cf mdl ds sg jj"
    by simp
  from fit_labels_star(1) [OF ok] infer_labels_ok [OF assms(1,2)] assms(3) show ?thesis
    by (simp add: offset_removed_def star_flux_piv_def set_test_label_vals_def)
qed

theorem offset_removed_and_pivot_restored_witness:
  "well_shaped toy_model toy_dataset [0]
   \<and> fit_ok (toy_fit RuntimeError) toy_model toy_dataset [0] 0
   \<and> fit_ok (toy_fit RuntimeError) toy_model toy_dataset [0] (Suc 0)
   \<and> fit_labels (toy_fit RuntimeError) \<lparr>ncols = 2, rows = [[1, 0], [0, 1]]\<rparr> [1, 1] [0]
        (star_sigma toy_model toy_dataset 0) = Inr ([1], \<lparr>ncols = 1, rows = [[1 / 4]]\<rparr>)
   \<and> rows (test_label_vals (snd (infer_labels (toy_fit RuntimeError) toy_model toy_dataset [0]))) ! 0 = [6]"
proof -
  have "\<exists>labels covs.
      fit_labels (toy_fit RuntimeError) \<lparr>ncols = 2, rows = [[1, 0], [0, 1]]\<rparr> [1, 1] [0]
            (star_sigma toy_model toy_dataset 0) = Inr (labels, covs)
      \<and> rows (test_label_vals (snd (infer_labels (toy_fit RuntimeError) toy_model toy_dataset [0]))) ! 0
              = map2 (+) labels [5]"
    using offset_removed_and_pivot_restored [OF toy_well_shaped toy_fits_ok, of 0]
    by (simp add: toy_nstars toy_eval)
  then obtain labels covs where
    fit: "fit_labels (toy_fit RuntimeError) \<lparr>ncols = 2, rows = [[1, 0], [0, 1]]\<rparr> [1, 1] [0]
            (star_sigma toy_model toy_dataset 0) = Inr (labels, covs)"
    and row: "rows (test_label_vals (snd (infer_labels (toy_fit RuntimeError) toy_model toy_dataset [0]))) ! 0
              = map2 (+) labels [5]"
    by blast
  from fit have "labels = [1]" "covs = \<lparr>ncols = 1, rows = [[1 / 4]]\<rparr>"
    by (simp_all add: fit_labels_def toy_fit_def)
  with fit row toy_well_shaped toy_fit_ok(1) [of RuntimeError] toy_fit_ok(2) show ?thesis
    by simp
qed

text \<open>
  C2 as stated does not hold: the row of a star whose fit failed does not hold
  \<open>-9999\<close> in the label table. In the small instance the fit of the second star fails
  and its row is \<open>-9999 + 5 = -9994\<close>, the pivot being 5.
\<close>

theorem sentinel_row_counterexample:
  "star_fit (toy_fit RuntimeError) toy_model toy_dataset [0] (Suc 0) = Inl RuntimeError
   \<and> test_label_vals (snd (infer_labels (toy_fit RuntimeError) toy_model toy_dataset [0]))
       = \<lparr>ncols = 1, rows = [[6], [- 9994]]\<rparr>
   \<and> - 9999 \<notin> set (rows (test_label_vals
        (snd (infer_labels (toy_fit RuntimeError) toy_model toy_dataset [0]))) ! Suc 0)"
  using toy_result toy_star_fit(2) [of RuntimeError] by simp

text \<open>
  C2, amended. On well-shaped input where every fit returns or fails with
  \<open>RuntimeError\<close>, the driver returns normally and replaces the label table by a new
  table of one row per star: the row of a star whose fit failed is \<open>-9999\<close> plus the
  pivot, entry by entry, and its row of the returned covariance diagonals is \<open>-9999\<close>
  throughout; the row of a star whose fit returned is the fitted labels plus the pivot,
  with the diagonal of the fitted covariance. No row depends on the table the dataset
  held before.
\<close>

theorem label_table_rows:
  assumes "well_shaped mdl ds sg"
    and "\<forall>j<nrows (test_flux ds). fit_ok cf mdl ds sg j"
  shows "\<exists>errs chis table.
           infer_labels cf mdl ds sg = (Inr (errs, chis), set_test_label_vals table ds)
         \<and> test_label_vals (set_test_label_vals table ds) = table
         \<and> nrows table = nrows (test_flux ds) \<and> ncols table = ncols (tr_label ds)
         \<and> nrows errs = nrows (test_flux ds) \<and> ncols errs = ncols (tr_label ds)
         \<and> (\<forall>j<nrows (test_flux ds).
              case star_fit cf mdl ds sg j of
                Inl e \<Rightarrow> rows table ! j = map (\<lambda>p. - 9999 + p) (pivots mdl)
                         \<and> rows errs ! j = replicate (ncols (tr_label ds)) (- 9999)
              | Inr (labels, covs) \<Rightarrow> rows table ! j = map2 (+) labels (pivots mdl)
                         \<and> rows errs ! j = diagonal covs)"
proof -
  have row: "case star_fit cf mdl ds sg j of
                Inl e \<Rightarrow> map2 (+) (star_labels cf mdl ds sg j) (pivots mdl) = map (\<lambda>p. - 9999 + p) (pivots mdl)
                         \<and> diagonal (star_covs cf mdl ds sg j) = replicate (ncols (tr_label ds)) (- 9999)
              | Inr (labels, covs) \<Rightarrow> map2 (+) (star_labels cf mdl ds sg j) (pivots mdl) = map2 (+) labels (pivots mdl)
                         \<and> diagonal (star_covs cf mdl ds sg j) = diagonal covs"
    for j
  proof (cases "star_fit cf mdl ds sg j")
    case (Inl e)
    from assms(1) have n: "length (pivots mdl) = length sg" "ncols (tr_label ds) = length sg"
      by (simp_all add: well_shaped_def)
    have "map2 (+) (replicate (length xs) c) xs = map (\<lambda>p. c + p) xs" for c :: real and xs
      by (induction xs) simp_all
    from this [of "pivots mdl" "- 9999"] n Inl show ?thesis
      by (auto simp: star_labels_def star_covs_def diagonal_def nrows_def intro!: nth_equalityI)
  next
    case (Inr r)
    then show ?thesis
      by (cases r) (simp add: star_labels_def star_covs_def)
  qed
  let ?n = "nrows (test_flux ds)"
  let ?errs = "\<lparr>ncols = ncols (tr_label ds),
                rows = map (\<lambda>j. diagonal (star_covs cf mdl ds sg j)) [0..<?n]\<rparr>"
  let ?table = "\<lparr>ncols = ncols (tr_label ds),
                 rows = map (\<lambda>j. map2 (+) (star_labels cf mdl ds sg j) (pivots mdl)) [0..<?n]\<rparr>"
  have rws: "\<forall>j<?n. case star_fit cf mdl ds sg j of
                Inl e \<Rightarrow> rows ?table ! j = map (\<lambda>p. - 9999 + p) (pivots mdl)
                         \<and> rows ?errs ! j = replicate (ncols (tr_label ds)) (- 9999)
              | Inr (labels, covs) \<Rightarrow> rows ?table ! j = map2 (+) labels (pivots mdl)
                         \<and> rows ?errs ! j = diagonal covs"
  proof (intro allI impI)
    fix j assume "j < ?n"
    with row [of j] show "case star_fit cf mdl ds sg j of
                Inl e \<Rightarrow> rows ?table ! j = map (\<lambda>p. - 9999 + p) (pivots mdl)
                         \<and> rows ?errs ! j = replicate (ncols (tr_label ds)) (- 9999)
              | Inr (labels, covs) \<Rightarrow> rows ?table ! j = map2 (+) labels (pivots mdl)
                         \<and> rows ?errs ! j = diagonal covs"
      by (auto split: sum.splits)
  qed
  have "infer_labels cf mdl ds sg
        = (Inr (?errs, map (star_chisq cf mdl ds sg) [0..<?n]), set_test_label_vals ?table ds)"
    by (rule infer_labels_ok [OF assms])
  moreover have "test_label_vals (set_test_label_vals ?table ds) = ?table"
    by (simp add: set_test_label_vals_def)
  moreover have "nrows ?table = ?n \<and> ncols ?table = ncols (tr_label ds)
                 \<and> nrows ?errs = ?n \<and> ncols ?errs = ncols (tr_label ds)"
    by (simp add: nrows_def)
  ultimately show ?thesis
    using rws by blast
qed

theorem label_table_rows_witness:
  "well_shaped toy_model toy_dataset [0]
   \<and> fit_ok (toy_fit RuntimeError) toy_model toy_dataset [0] 0
   \<and> fit_ok (toy_fit RuntimeError) toy_model toy_dataset [0] (Suc 0)
   \<and> star_fit (toy_fit RuntimeError) toy_model toy_dataset [0] (Suc 0) = Inl RuntimeError
   \<and> (\<exists>errs chis table.
        infer_labels (toy_fit RuntimeError) toy_model toy_dataset [0]
          = (Inr (errs, chis), set_test_label_vals table toy_dataset)
        \<and> rows table ! Suc 0 = [- 9994] \<and> rows errs ! Suc 0 = [- 9999]
        \<and> rows table ! 0 = [6] \<and> rows errs ! 0 = [1 / 4])"
proof -
  from label_table_rows [OF toy_well_shaped toy_fits_ok]
  obtain errs chis table where
    res: "infer_labels (toy_fit RuntimeError) toy_model toy_dataset [0]
          = (Inr (errs, chis), set_test_label_vals table toy_dataset)"
    and rws: "\<forall>j<2. case star_fit (toy_fit RuntimeError) toy_model toy_dataset [0] j of
                Inl e \<Rightarrow> rows table ! j = map (\<lambda>p. - 9999 + p) (pivots toy_model)
                         \<and> rows errs ! j = replicate (ncols (tr_label toy_dataset)) (- 9999)
              | Inr (labels, covs) \<Rightarrow> rows table ! j = map2 (+) labels (pivots toy_model)
                         \<and> rows errs ! j = diagonal covs"
    by (auto simp: toy_nstars)
  from rws have "case star_fit (toy_fit RuntimeError) toy_model toy_dataset [0] 0 of
                Inl e \<Rightarrow> rows table ! 0 = map (\<lambda>p. - 9999 + p) (pivots toy_model)
                         \<and> rows errs ! 0 = replicate (ncols (tr_label toy_dataset)) (- 9999)
              | Inr (labels, covs) \<Rightarrow> rows table ! 0 = map2 (+) labels (pivots toy_model)
                         \<and> rows errs ! 0 = diagonal covs"
    by simp
  then have first: "rows table ! 0 = [6] \<and> rows errs ! 0 = [1 / 4]"
    by (simp add: toy_star_fit toy_eval diagonal_def nrows_def)
  from rws have "case star_fit (toy_fit RuntimeError) toy_model toy_dataset [0] (Suc 0) of
                Inl e \<Rightarrow> rows table ! Suc 0 = map (\<lambda>p. - 9999 + p) (pivots toy_model)
                         \<and> rows errs ! Suc 0 = replicate (ncols (tr_label toy_dataset)) (- 9999)
              | Inr (labels, covs) \<Rightarrow> rows table ! Suc 0 = map2 (+) labels (pivots toy_model)
                         \<and> rows errs ! Suc 0 = diagonal covs"
    by simp
  then have "rows table ! Suc 0 = [- 9994] \<and> rows errs ! Suc 0 = [- 9999]"
    by (simp add: toy_star_fit toy_eval)
  with first res have
    "\<exists>errs chis table.
        infer_labels (toy_fit RuntimeError) toy_model toy_dataset [0]
          = (Inr (errs, chis), set_test_label_vals table toy_dataset)
        \<and> rows table ! Suc 0 = [- 9994] \<and> rows errs ! Suc 0 = [- 9999]
        \<and> rows table ! 0 = [6] \<and> rows errs ! 0 = [1 / 4]"
    by blast
  then show ?thesis
    by (intro conjI toy_well_shaped toy_fit_ok toy_star_fit)
qed




text \<open>
  C8. A run of the driver makes no call on the dataset when it raises, be it before the
  loop or at any star of the loop, and exactly one call when it returns: the setter of
  the label table, called when the loop has ended with the table of one row per star and
  one column per label that the loop filled. The driver returns, and so writes, whenever
  the coefficient matrix has a column and the loop ends. The dataset the driver leaves is
  the dataset it received with these calls applied; the training labels, the flux and the
  inverse variance are never changed.
\<close>

theorem label_table_written_once:
  "(case infer_labels_trace cf mdl ds sg of
      (Inl e, calls) \<Rightarrow> calls = []
    | (Inr out, calls) \<Rightarrow>
        \<exists>st. stars_loop cf mdl ds sg [0..<nrows (test_flux ds)]
               \<lparr>labels_all = zeros2 (nrows (test_flux ds)) (ncols (tr_label ds)),
                errs_all = zeros2 (nrows (test_flux ds)) (ncols (tr_label ds)),
                chisq_all = zeros1 (nrows (test_flux ds))\<rparr> = Inr st
           \<and> out = (errs_all st, chisq_all st)
           \<and> calls = [Set_test_label_vals (labels_all st)]
           \<and> nrows (labels_all st) = nrows (test_flux ds)
           \<and> ncols (labels_all st) = ncols (tr_label ds)
           \<and> valid2d (labels_all st))
   \<and> (if ncols (coeffs mdl) \<noteq> 0
         \<and> (\<exists>st. stars_loop cf mdl ds sg [0..<nrows (test_flux ds)]
               \<lparr>labels_all = zeros2 (nrows (test_flux ds)) (ncols (tr_label ds)),
                errs_all = zeros2 (nrows (test_flux ds)) (ncols (tr_label ds)),
                chisq_all = zeros1 (nrows (test_flux ds))\<rparr> = Inr st)
       then \<exists>out. fst (infer_labels_trace cf mdl ds sg) = Inr out
       else \<exists>e. fst (infer_labels_trace cf mdl ds sg) = Inl e)
   \<and> infer_labels cf mdl ds sg
       = (fst (infer_labels_trace cf mdl ds sg),
          fold apply_call (snd (infer_labels_trace cf mdl ds sg)) ds)
   \<and> tr_label (snd (infer_labels cf mdl ds sg)) = tr_label ds
   \<and> test_flux (snd (infer_labels cf mdl ds sg)) = test_flux ds
   \<and> test_ivar (snd (infer_labels cf mdl ds sg)) = test_ivar ds"
proof -
  let ?st0 = "\<lparr>labels_all = zeros2 (nrows (test_flux ds)) (ncols (tr_label ds)),
                errs_all = zeros2 (nrows (test_flux ds)) (ncols (tr_label ds)),
                chisq_all = zeros1 (nrows (test_flux ds))\<rparr>"
  have valid: "state_valid (nrows (test_flux ds)) (ncols (tr_label ds)) st"
    if "stars_loop cf mdl ds sg [0..<nrows (test_flux ds)] ?st0 = Inr st" for st
    using that initial_state_valid by (rule stars_loop_valid)
  note replay = infer_labels_replay [of cf mdl ds sg]
  show ?thesis
  proof (cases "ncols (coeffs mdl) = 0")
    case True
    then have "infer_labels_trace cf mdl ds sg = (Inl ValueError, [])"
      by (simp add: infer_labels_trace_def)
    with True replay show ?thesis
      by simp
  next
    case False
    show ?thesis
    proof (cases "stars_loop cf mdl ds sg [0..<nrows (test_flux ds)] ?st0")
      case (Inl e)
      with False have "infer_labels_trace cf mdl ds sg = (Inl e, [])"
        by (simp add: infer_labels_trace_def Let_def)
      with Inl replay show ?thesis
        by simp
    next
      case (Inr st)
      with False have "infer_labels_trace cf mdl ds sg
          = (Inr (errs_all st, chisq_all st), [Set_test_label_vals (labels_all st)])"
        by (simp add: infer_labels_trace_def Let_def)
      with False Inr valid [OF Inr] replay show ?thesis
        by (simp add: state_valid_def state_shape_def set_test_label_vals_def)
    qed
  qed
qed

theorem label_table_written_once_witness:
  "test_label_vals toy_dataset = \<lparr>ncols = 1, rows = [[7], [7]]\<rparr>
   \<and> (\<exists>out. infer_labels_trace (toy_fit RuntimeError) toy_model toy_dataset [0]
        = (Inr out, [Set_test_label_vals \<lparr>ncols = 1, rows = [[6], [- 9994]]\<rparr>]))
   \<and> test_label_vals (snd (infer_labels (toy_fit RuntimeError) toy_model toy_dataset [0]))
       = \<lparr>ncols = 1, rows = [[6], [- 9994]]\<rparr>
   \<and> infer_labels_trace (toy_fit TypeError) toy_model toy_dataset [0] = (Inl TypeError, [])
   \<and> snd (infer_labels (toy_fit TypeError) toy_model toy_dataset [0]) = toy_dataset"
proof -
  let ?st0 = "\<lparr>labels_all = zeros2 (nrows (test_flux toy_dataset)) (ncols (tr_label toy_dataset)),
                errs_all = zeros2 (nrows (test_flux toy_dataset)) (ncols (tr_label toy_dataset)),
                chisq_all = zeros1 (nrows (test_flux toy_dataset))\<rparr>"
  let ?cf = "toy_fit RuntimeError"
  have nc: "ncols (coeffs toy_model) \<noteq> 0"
    by (simp add: toy_eval)
  have "stars_loop ?cf toy_model toy_dataset [0] [0..<nrows (test_flux toy_dataset)]
          (partial_state ?cf toy_model toy_dataset [0] 0)
        = Inr (partial_state ?cf toy_model toy_dataset [0] (nrows (test_flux toy_dataset)))"
    using toy_well_shaped toy_fits_ok by (intro stars_loop_prefix) simp_all
  then have loop: "stars_loop ?cf toy_model toy_dataset [0] [0..<nrows (test_flux toy_dataset)] ?st0
        = Inr (partial_state ?cf toy_model toy_dataset [0] 2)"
    unfolding initial_state [of toy_dataset ?cf toy_model "[0]"] by (simp add: toy_nstars)
  have table: "labels_all (partial_state ?cf toy_model toy_dataset [0] 2)
               = \<lparr>ncols = 1, rows = [[6], [- 9994]]\<rparr>"
    by (simp add: partial_state_def Let_def toy_nstars upt_2 star_labels_def toy_star_fit toy_eval)
  note main = label_table_written_once [of ?cf toy_model toy_dataset "[0]"]
  obtain r calls where tr: "infer_labels_trace ?cf toy_model toy_dataset [0] = (r, calls)"
    by (cases "infer_labels_trace ?cf toy_model toy_dataset [0]")
  from main nc loop tr obtain out where r: "r = Inr out"
    by auto
  from main tr r loop table have calls: "calls = [Set_test_label_vals \<lparr>ncols = 1, rows = [[6], [- 9994]]\<rparr>]"
    by auto
  from main tr calls have written:
    "test_label_vals (snd (infer_labels ?cf toy_model toy_dataset [0]))
       = \<lparr>ncols = 1, rows = [[6], [- 9994]]\<rparr>"
    by (simp add: set_test_label_vals_def)
  have before: "\<forall>j<Suc 0. fit_ok (toy_fit TypeError) toy_model toy_dataset [0] j"
    using toy_fit_ok(1) [of TypeError] by simp
  have raised: "infer_labels (toy_fit TypeError) toy_model toy_dataset [0] = (Inl TypeError, toy_dataset)"
    using toy_well_shaped _ before toy_star_fit(2) [of TypeError]
    by (rule infer_labels_raise) (simp_all add: toy_nstars)
  note main' = label_table_written_once [of "toy_fit TypeError" toy_model toy_dataset "[0]"]
  from main' raised have "infer_labels_trace (toy_fit TypeError) toy_model toy_dataset [0] = (Inl TypeError, [])"
    by (cases "infer_labels_trace (toy_fit TypeError) toy_model toy_dataset [0]") (auto split: sum.splits)
  with tr r calls written raised show ?thesis
    by (simp add: toy_dataset_def)
qed

text \<open>
  C9. On well-shaped input, when the optimizer raises an exception other than
  \<open>RuntimeError\<close> at star \<open>k\<close>, the stars before it having been fitted, the driver
  raises that exception and the dataset, its label table included, is unchanged.
\<close>

theorem other_exception_propagates:
  assumes "well_shaped mdl ds sg"
    and "k < nrows (test_flux ds)"
    and "\<forall>j<k. fit_ok cf mdl ds sg j"
    and "cf func (offset_removed (coeffs mdl)) (star_flux_piv mdl ds k) sg (star_sigma mdl ds k) = Inl e"
    and "e \<noteq> RuntimeError"
  shows "infer_labels cf mdl ds sg = (Inl e, ds)"
  using assms by (intro infer_labels_raise [where k = k]) (simp_all add: star_fit_def)

theorem other_exception_propagates_witness:
  "well_shaped toy_model toy_dataset [0]
   \<and> fit_ok (toy_fit TypeError) toy_model toy_dataset [0] 0
   \<and> toy_fit TypeError func (offset_removed (coeffs toy_model))
        (star_flux_piv toy_model toy_dataset (Suc 0)) [0]
        (star_sigma toy_model toy_dataset (Suc 0)) = Inl TypeError
   \<and> infer_labels (toy_fit TypeError) toy_model toy_dataset [0] = (Inl TypeError, toy_dataset)"
proof -
  have raised: "toy_fit TypeError func (offset_removed (coeffs toy_model))
      (star_flux_piv toy_model toy_dataset (Suc 0)) [0] (star_sigma toy_model toy_dataset (Suc 0))
      = Inl TypeError"
    using toy_star_fit(2) [of TypeError] by (simp add: star_fit_def)
  have before: "\<forall>j<Suc 0. fit_ok (toy_fit TypeError) toy_model toy_dataset [0] j"
    using toy_fit_ok(1) [of TypeError] by simp
  have "infer_labels (toy_fit TypeError) toy_model toy_dataset [0] = (Inl TypeError, toy_dataset)"
    using other_exception_propagates [OF toy_well_shaped _ before, of TypeError] raised
    by (simp add: toy_nstars)
  with toy_well_shaped toy_fit_ok(1) [of TypeError] raised show ?thesis
    by simp
qed

end
